theory Spec2Isabelle
  imports Main "HOL-Library.Char_ord" "HOL-Library.List_Lexorder" "HOL-Library.Sublist"
begin

section \<open>Python string and list primitives used by the scope validator\<close>

text \<open>
  A Python \<open>str\<close> is modelled as a \<open>string\<close> holding its UTF-8 bytes. Substring search,
  splitting on \<open>/\<close>, joining and comparison agree on UTF-8 bytes and on code points
  (UTF-8 is self-synchronising and preserves code-point order).

  \<open>str.lower\<close> is a builtin of Python, not code of this repository, and it follows the
  Unicode case mappings. It is a parameter \<open>str_lower\<close> of every function below that calls
  it, so each theorem holds for every lowering function; where a property of
  \<open>str.lower\<close> is needed, it is a hypothesis of the theorem (\<open>lowers_ascii\<close> below).

  \<open>ascii_lower\<close> is what \<open>str.lower\<close> does on ASCII text: the letters \<open>A\<close>..\<open>Z\<close>
  (65..90) move 32 up, every other character stays. It states that hypothesis and
  evaluates the functions at concrete ASCII descriptions.
\<close>

definition ascii_lower_char :: "char \<Rightarrow> char" where
  "ascii_lower_char c =
     (let n = (of_char c :: nat)
      in if 65 \<le> n \<and> n \<le> 90 then char_of (n + 32) else c)"

definition ascii_lower :: "string \<Rightarrow> string" where
  "ascii_lower s = map ascii_lower_char s"

fun startswith :: "string \<Rightarrow> string \<Rightarrow> bool" where
  "startswith [] hs = True"
| "startswith (n # ns) [] = False"
| "startswith (n # ns) (h # hs) = (n = h \<and> startswith ns hs)"

text \<open>\<open>str_in needle haystack\<close> is Python's \<open>needle in haystack\<close> on strings.\<close>

fun str_in :: "string \<Rightarrow> string \<Rightarrow> bool" where
  "str_in needle [] = (needle = [])"
| "str_in needle (h # hs) = (startswith needle (h # hs) \<or> str_in needle hs)"

text \<open>\<open>str_split sep s\<close> is \<open>s.split(sep)\<close> for a one-character separator.\<close>

fun str_split :: "char \<Rightarrow> string \<Rightarrow> string list" where
  "str_split sep [] = [[]]"
| "str_split sep (c # cs) =
     (let parts = str_split sep cs
      in if c = sep then [] # parts else (c # hd parts) # tl parts)"

text \<open>\<open>join sep xs\<close> is \<open>sep.join(xs)\<close>.\<close>

fun join :: "string \<Rightarrow> string list \<Rightarrow> string" where
  "join sep [] = []"
| "join sep [x] = x"
| "join sep (x # y # ys) = x @ sep @ join sep (y # ys)"

text \<open>Decimal rendering of an integer, as an f-string does it.\<close>

fun str_nat :: "nat \<Rightarrow> string" where
  "str_nat n =
     (if n < 10 then [char_of (48 + n)]
      else str_nat (n div 10) @ [char_of (48 + n mod 10)])"

definition str_int :: "int \<Rightarrow> string" where
  "str_int i = (if i < 0 then CHR ''-'' # str_nat (nat (- i)) else str_nat (nat i))"

text \<open>
  \<open>repr\<close> of a list of strings, for strings without quotes, backslashes or
  non-printable characters (the only ones it is applied to are the complexity keywords).
\<close>

definition repr_str :: "string \<Rightarrow> string" where
  "repr_str s = [CHR 0x27] @ s @ [CHR 0x27]"

definition repr_list :: "string list \<Rightarrow> string" where
  "repr_list xs = ''['' @ join '', '' (map repr_str xs) @ '']''"

text \<open>The two emoji of the messages, as their UTF-8 bytes.\<close>

definition WARNING_SIGN :: string where
  "WARNING_SIGN = [CHR 0xE2, CHR 0x9A, CHR 0xA0, CHR 0xEF, CHR 0xB8, CHR 0x8F]"

definition CHECK_MARK :: string where
  "CHECK_MARK = [CHR 0xE2, CHR 0x9C, CHR 0x85]"

definition NL :: string where
  "NL = [CHR 0x0A]"

section \<open>scope_validator.py\<close>

record ScopeViolationError =
  message :: string
  file_count :: int
  max_allowed :: int

definition INFRASTRUCTURE_FILES :: "string list" where
  "INFRASTRUCTURE_FILES =
     [''Dockerfile'',
      ''docker-compose.yml'',
      ''docker-compose.yaml'',
      ''nginx.conf'',
      ''.k8s/'',
      ''kubernetes/'',
      ''terraform/'',
      ''.tf'',
      ''.github/workflows/'',
      ''Jenkinsfile'',
      ''.circleci/'']"

subsection \<open>detect_anti_patterns\<close>

text \<open>
  Each of the three blocks of \<open>detect_anti_patterns\<close> is a function returning the
  warnings the block appends (none or one); the function itself concatenates them in
  the order of the blocks.
\<close>

definition UI_KEYWORDS :: "string list" where
  "UI_KEYWORDS = [''ui'', ''css'', ''style'', ''button'', ''layout'']"

definition infra_found :: "string list \<Rightarrow> string list" where
  "infra_found files =
     filter (\<lambda>f. list_ex (\<lambda>infra. str_in infra f) INFRASTRUCTURE_FILES) files"

definition infra_warning :: "string list \<Rightarrow> string" where
  "infra_warning found =
     WARNING_SIGN @ '' ANTI-PATTERN: Infrastructure files modified for UI issue!'' @ NL @
     ''   Files: '' @ join '', '' found @ NL @
     ''   Recommendation: Keep infrastructure changes separate from UI fixes''"

definition check_infrastructure :: "string list \<Rightarrow> string \<Rightarrow> string list" where
  "check_infrastructure files desc_lower =
     (if list_ex (\<lambda>keyword. str_in keyword desc_lower) UI_KEYWORDS
      then (let found = infra_found files
            in if found \<noteq> [] then [infra_warning found] else [])
      else [])"

definition top_dirs :: "string list \<Rightarrow> string set" where
  "top_dirs files =
     fold (\<lambda>f dirs. let parts = str_split CHR ''/'' f
                     in if length parts > 1 then insert (parts ! 0) dirs else dirs)
          files {}"

definition modules_warning :: "string set \<Rightarrow> string" where
  "modules_warning dirs =
     WARNING_SIGN @ '' ANTI-PATTERN: Changes span '' @ str_int (int (card dirs)) @
     '' unrelated modules: '' @ join '', '' (sorted_list_of_set dirs) @ NL @
     ''   Recommendation: Split into focused changes per module''"

definition check_modules :: "string list \<Rightarrow> string list" where
  "check_modules files =
     (let dirs = top_dirs files
      in if card dirs > 3 then [modules_warning dirs] else [])"

definition complexity_keywords :: "string list" where
  "complexity_keywords =
     [''factory'', ''manager'', ''handler'', ''builder'', ''strategy'', ''adapter'']"

definition simple_fix_keywords :: "string list" where
  "simple_fix_keywords = [''fix'', ''bug'', ''typo'', ''minor'']"

definition complexity_warning :: "string \<Rightarrow> string" where
  "complexity_warning desc_lower =
     WARNING_SIGN @ '' ANTI-PATTERN: Complex abstractions ('' @
     repr_list (filter (\<lambda>kw. str_in kw desc_lower) complexity_keywords) @
     '') for simple fix'' @ NL @
     ''   Recommendation: Use simplest solution that works''"

definition check_complexity :: "string \<Rightarrow> string list" where
  "check_complexity desc_lower =
     (let desc_has_complexity = list_ex (\<lambda>kw. str_in kw desc_lower) complexity_keywords;
          desc_is_simple = list_ex (\<lambda>kw. str_in kw desc_lower) simple_fix_keywords
      in if desc_has_complexity \<and> desc_is_simple
         then [complexity_warning desc_lower] else [])"

definition detect_anti_patterns ::
  "(string \<Rightarrow> string) \<Rightarrow> string list \<Rightarrow> string \<Rightarrow> string list" where
  "detect_anti_patterns str_lower files description =
     (let desc_lower = str_lower description
      in check_infrastructure files desc_lower @
         check_modules files @
         check_complexity desc_lower)"

subsection \<open>analyze_scope\<close>

text \<open>The dictionary returned by \<open>analyze_scope\<close>, one field per key.\<close>

record decision =
  approved :: bool
  scope_level :: string
  file_count :: int
  warnings :: "string list"
  files :: "string list"

definition violation_message :: "string list \<Rightarrow> string" where
  "violation_message fs =
     ''Scope limit exceeded: '' @ str_int (int (length fs)) @
     '' files requested (max: 10)'' @ NL @
     ''Recommendation: Break this change into smaller, focused tasks'' @ NL @
     ''Files: '' @ join '', '' (take 5 fs) @ (if length fs > 5 then ''...'' else [])"

definition scope_tier :: "int \<Rightarrow> string \<times> string" where
  "scope_tier n =
     (if n \<le> 3 then (''LOCAL'', CHECK_MARK @ '' Local scope - auto-approved'')
      else if n \<le> 5
      then (''MODERATE'', WARNING_SIGN @ '' Moderate scope - approved with caution'')
      else (''EXTENSIVE'',
            WARNING_SIGN @ '' Extensive scope - approaching limit (max 10 files)''))"

definition analyze_scope ::
  "(string \<Rightarrow> string) \<Rightarrow> string list \<Rightarrow> string \<Rightarrow> ScopeViolationError + decision" where
  "analyze_scope str_lower fs description =
     (let n = int (length fs)
      in if n > 10
         then Inl \<lparr>message = violation_message fs,
                   ScopeViolationError.file_count = n,
                   max_allowed = 10\<rparr>
         else (let (level, scope_message) = scope_tier n;
                   ws = detect_anti_patterns str_lower fs description;
                   ws = (if level \<in> set [''MODERATE'', ''EXTENSIVE'']
                         then scope_message # ws else ws)
               in Inr \<lparr>approved = True,
                        scope_level = level,
                        decision.file_count = n,
                        warnings = ws,
                        files = fs\<rparr>))"

section \<open>scope_validator.py, with its list objects in a store\<close>

text \<open>
  A Python list is an object: a variable holds a reference to it, and \<open>append\<close> and
  \<open>insert\<close> change the object in place. To state what a call leaves behind for the
  next call, \<open>detect_anti_patterns\<close> and \<open>analyze_scope\<close> are embedded a second time with
  the list objects they reach held in a store, statement by statement:
  \<^item> the store maps each address to the contents of the list object there and knows the
    first address not yet in use;
  \<^item> the module-level list \<open>INFRASTRUCTURE_FILES\<close> is an object at a fixed address, read
    through the store at every call;
  \<^item> the argument \<open>files\<close> is the address of the caller's list;
  \<^item> \<open>warnings = []\<close> takes a new object, \<open>warnings.append\<close> and \<open>warnings.insert(0, ...)\<close>
    update it;
  \<^item> the returned dictionary holds the references \<open>warnings\<close> and \<open>files\<close>, not copies.
  The list \<open>infra_found\<close> and the set \<open>top_dirs\<close> are built and dropped inside one call
  and are kept as values.
\<close>

record store =
  heap :: "nat \<Rightarrow> string list"
  next_addr :: nat

definition INFRASTRUCTURE_FILES_ref :: nat where
  "INFRASTRUCTURE_FILES_ref = 0"

definition new_list :: "store \<Rightarrow> nat \<times> store" where
  "new_list s =
     (next_addr s, s\<lparr>heap := (heap s)(next_addr s := []), next_addr := Suc (next_addr s)\<rparr>)"

definition list_append :: "nat \<Rightarrow> string \<Rightarrow> store \<Rightarrow> store" where
  "list_append a x s = s\<lparr>heap := (heap s)(a := heap s a @ [x])\<rparr>"

definition list_insert0 :: "nat \<Rightarrow> string \<Rightarrow> store \<Rightarrow> store" where
  "list_insert0 a x s = s\<lparr>heap := (heap s)(a := x # heap s a)\<rparr>"

definition detect_anti_patterns_st ::
  "(string \<Rightarrow> string) \<Rightarrow> nat \<Rightarrow> string \<Rightarrow> store \<Rightarrow> nat \<times> store" where
  "detect_anti_patterns_st str_lower files_ref description s0 =
     (let (warnings_ref, s1) = new_list s0;
          desc_lower = str_lower description;
          s2 = (if list_ex (\<lambda>keyword. str_in keyword desc_lower)
                     [''ui'', ''css'', ''style'', ''button'', ''layout'']
                then (let found = filter (\<lambda>f. list_ex (\<lambda>infra. str_in infra f)
                                                  (heap s1 INFRASTRUCTURE_FILES_ref))
                                         (heap s1 files_ref)
                      in if found \<noteq> []
                         then list_append warnings_ref (infra_warning found) s1
                         else s1)
                else s1);
          dirs = fold (\<lambda>f dirs. let parts = str_split CHR ''/'' f
                                 in if length parts > 1 then insert (parts ! 0) dirs else dirs)
                      (heap s2 files_ref) {};
          s3 = (if card dirs > 3
                then list_append warnings_ref (modules_warning dirs) s2
                else s2);
          desc_has_complexity = list_ex (\<lambda>kw. str_in kw desc_lower) complexity_keywords;
          desc_is_simple = list_ex (\<lambda>kw. str_in kw desc_lower) simple_fix_keywords;
          s4 = (if desc_has_complexity \<and> desc_is_simple
                then list_append warnings_ref (complexity_warning desc_lower) s3
                else s3)
      in (warnings_ref, s4))"

text \<open>The returned dictionary as the code builds it: two of its values are references.\<close>

record decision_refs =
  r_approved :: bool
  r_scope_level :: string
  r_file_count :: int
  r_warnings :: nat
  r_files :: nat

definition analyze_scope_st ::
  "(string \<Rightarrow> string) \<Rightarrow> nat \<Rightarrow> string \<Rightarrow> store \<Rightarrow>
   (ScopeViolationError + decision_refs) \<times> store" where
  "analyze_scope_st str_lower files_ref description s0 =
     (let n = int (length (heap s0 files_ref))
      in if n > 10
         then (Inl \<lparr>message = violation_message (heap s0 files_ref),
                    ScopeViolationError.file_count = n,
                    max_allowed = 10\<rparr>, s0)
         else (let (level, scope_message) = scope_tier n;
                   (warnings_ref, s1) =
                     detect_anti_patterns_st str_lower files_ref description s0;
                   s2 = (if level \<in> set [''MODERATE'', ''EXTENSIVE'']
                         then list_insert0 warnings_ref scope_message s1 else s1)
               in (Inr \<lparr>r_approved = True,
                         r_scope_level = level,
                         r_file_count = n,
                         r_warnings = warnings_ref,
                         r_files = files_ref\<rparr>, s2)))"

text \<open>
  What a caller reads from an outcome in a given store: the violation as it is, the
  decision with its two references followed.
\<close>

definition deref ::
  "store \<Rightarrow> ScopeViolationError + decision_refs \<Rightarrow> ScopeViolationError + decision" where
  "deref s r =
     (case r of
        Inl e \<Rightarrow> Inl e
      | Inr dr \<Rightarrow>
          Inr \<lparr>approved = r_approved dr,
               scope_level = r_scope_level dr,
               decision.file_count = r_file_count dr,
               warnings = heap s (r_warnings dr),
               files = heap s (r_files dr)\<rparr>)"

text \<open>
  \<open>repeat_calls k\<close> makes \<open>k\<close> calls one after the other on the same argument, each in the
  store the one before left, and collects what the caller reads after each call.
\<close>

fun repeat_calls ::
  "nat \<Rightarrow> (string \<Rightarrow> string) \<Rightarrow> nat \<Rightarrow> string \<Rightarrow> store \<Rightarrow>
   (ScopeViolationError + decision) list \<times> store" where
  "repeat_calls 0 str_lower files_ref description s = ([], s)"
| "repeat_calls (Suc k) str_lower files_ref description s =
     (let (r, s1) = analyze_scope_st str_lower files_ref description s;
          (rs, s2) = repeat_calls k str_lower files_ref description s1
      in (deref s1 r # rs, s2))"

text \<open>
  A store in which the module has been loaded and nothing has changed its list, and in
  which the argument is an object that exists.
\<close>

definition ready :: "store \<Rightarrow> nat \<Rightarrow> bool" where
  "ready s files_ref =
     (INFRASTRUCTURE_FILES_ref < next_addr s \<and>
      heap s INFRASTRUCTURE_FILES_ref = INFRASTRUCTURE_FILES \<and>
      files_ref < next_addr s)"

section \<open>integration_specialist_tool.py\<close>

text \<open>
  The tool module declares its own exception class, marker list and detector, and the
  function \<open>_analyze_scope_impl\<close>; they are embedded from that file, with the prefix
  \<open>tool\<close> where the name is already taken above.
\<close>

record ToolScopeViolationError =
  message :: string
  file_count :: int
  max_allowed :: int

definition tool_INFRASTRUCTURE_FILES :: "string list" where
  "tool_INFRASTRUCTURE_FILES =
     [''Dockerfile'',
      ''docker-compose.yml'',
      ''docker-compose.yaml'',
      ''nginx.conf'',
      ''.k8s/'',
      ''kubernetes/'',
      ''terraform/'',
      ''.tf'',
      ''.github/workflows/'',
      ''Jenkinsfile'',
      ''.circleci/'']"

definition tool_detect_anti_patterns ::
  "(string \<Rightarrow> string) \<Rightarrow> string list \<Rightarrow> string \<Rightarrow> string list" where
  "tool_detect_anti_patterns str_lower fs description =
     (let desc_lower = str_lower description;
          ws = [];
          ws = (if list_ex (\<lambda>keyword. str_in keyword desc_lower)
                     [''ui'', ''css'', ''style'', ''button'', ''layout'']
                then (let found = filter (\<lambda>f. list_ex (\<lambda>infra. str_in infra f)
                                                  tool_INFRASTRUCTURE_FILES) fs
                      in if found \<noteq> []
                         then ws @
                           [WARNING_SIGN @
                            '' ANTI-PATTERN: Infrastructure files modified for UI issue!'' @ NL @
                            ''   Files: '' @ join '', '' found @ NL @
                            ''   Recommendation: Keep infrastructure changes separate from UI fixes'']
                         else ws)
                else ws);
          dirs = fold (\<lambda>f dirs. let parts = str_split CHR ''/'' f
                                 in if length parts > 1 then insert (parts ! 0) dirs else dirs)
                      fs {};
          ws = (if card dirs > 3
                then ws @
                  [WARNING_SIGN @ '' ANTI-PATTERN: Changes span '' @ str_int (int (card dirs)) @
                   '' unrelated modules: '' @ join '', '' (sorted_list_of_set dirs) @ NL @
                   ''   Recommendation: Split into focused changes per module'']
                else ws);
          kws = [''factory'', ''manager'', ''handler'', ''builder'', ''strategy'', ''adapter''];
          simple = [''fix'', ''bug'', ''typo'', ''minor''];
          desc_has_complexity = list_ex (\<lambda>kw. str_in kw desc_lower) kws;
          desc_is_simple = list_ex (\<lambda>kw. str_in kw desc_lower) simple
      in if desc_has_complexity \<and> desc_is_simple
         then ws @
           [WARNING_SIGN @ '' ANTI-PATTERN: Complex abstractions ('' @
            repr_list (filter (\<lambda>kw. str_in kw desc_lower) kws) @
            '') for simple fix'' @ NL @
            ''   Recommendation: Use simplest solution that works'']
         else ws)"

definition analyze_scope_impl ::
  "(string \<Rightarrow> string) \<Rightarrow> string list \<Rightarrow> string \<Rightarrow>
   ToolScopeViolationError + decision" where
  "analyze_scope_impl str_lower fs description =
     (let n = int (length fs)
      in if n > 10
         then Inl \<lparr>message =
                     ''Scope limit exceeded: '' @ str_int n @
                     '' files requested (max: 10)'' @ NL @
                     ''Recommendation: Break this change into smaller, focused tasks'' @ NL @
                     ''Files: '' @ join '', '' (take 5 fs) @
                     (if length fs > 5 then ''...'' else []),
                   ToolScopeViolationError.file_count = n,
                   max_allowed = 10\<rparr>
         else (let (level, scope_message) =
                     (if n \<le> 3
                      then (''LOCAL'', CHECK_MARK @ '' Local scope - auto-approved'')
                      else if n \<le> 5
                      then (''MODERATE'',
                            WARNING_SIGN @ '' Moderate scope - approved with caution'')
                      else (''EXTENSIVE'',
                            WARNING_SIGN @
                            '' Extensive scope - approaching limit (max 10 files)''));
                   ws = tool_detect_anti_patterns str_lower fs description;
                   ws = (if level \<in> set [''MODERATE'', ''EXTENSIVE'']
                         then scope_message # ws else ws)
               in Inr \<lparr>approved = True,
                        scope_level = level,
                        decision.file_count = n,
                        warnings = ws,
                        files = fs\<rparr>))"

section \<open>Notions used to state the properties\<close>




section \<open>The string primitives meet their specification\<close>

text \<open>
  \<open>str_in\<close> is the contiguous-substring relation \<open>sublist\<close> of the library:
  \<open>sublist n h\<close> holds when \<open>h = ps @ n @ ss\<close> for some \<open>ps\<close> and \<open>ss\<close>.
\<close>

lemma startswith_prefix: "startswith n h = prefix n h"
  by (induction n h rule: startswith.induct) simp_all

lemma str_in_sublist: "str_in n h = sublist n h"
  by (induction h) (simp_all add: startswith_prefix sublist_Cons_right)

lemma list_ex_str_in: "list_ex (\<lambda>k. str_in k s) ks = (\<exists>k \<in> set ks. sublist k s)"
  by (simp add: list_ex_iff str_in_sublist)

text \<open>
  \<open>str_split\<close> returns at least one segment, no segment holds the separator, joining the
  segments with the separator gives the string back, and the first segment is the longest
  prefix without the separator.
\<close>

lemma str_split_nonempty: "str_split sep s \<noteq> []"
  by (induction s) (simp_all add: Let_def)

lemma str_split_hd: "hd (str_split sep s) = takeWhile (\<lambda>c. c \<noteq> sep) s"
  by (induction s) (simp_all add: Let_def)

lemma str_split_length: "(1 < length (str_split sep s)) = (sep \<in> set s)"
proof (induction s)
  case Nil
  then show ?case by simp
next
  case (Cons c cs)
  have ne: "str_split sep cs \<noteq> []" by (rule str_split_nonempty)
  then have "length (tl (str_split sep cs)) = length (str_split sep cs) - 1" by simp
  moreover from ne have "0 < length (str_split sep cs)" by simp
  ultimately show ?case using Cons by (auto simp add: Let_def)
qed

lemma str_split_join: "join [sep] (str_split sep s) = s"
proof (induction s)
  case Nil
  then show ?case by simp
next
  case (Cons c cs)
  obtain p ps where ps: "str_split sep cs = p # ps"
    using str_split_nonempty [of sep cs] by (cases "str_split sep cs") auto
  show ?case
  proof (cases "c = sep")
    case True
    with Cons ps show ?thesis by (simp add: Let_def)
  next
    case False
    with Cons ps show ?thesis by (cases ps) (auto simp add: Let_def)
  qed
qed

lemma str_split_no_sep: "\<forall>p \<in> set (str_split sep s). sep \<notin> set p"
proof (induction s)
  case Nil
  then show ?case by simp
next
  case (Cons c cs)
  obtain p ps where ps: "str_split sep cs = p # ps"
    using str_split_nonempty [of sep cs] by (cases "str_split sep cs") auto
  with Cons show ?case by (auto simp add: Let_def)
qed

lemma str_split_length_Suc: "(Suc 0 < length (str_split sep s)) = (sep \<in> set s)"
  using str_split_length [of sep s] by simp

lemma str_split_first: "str_split sep s ! 0 = takeWhile (\<lambda>c. c \<noteq> sep) s"
  using str_split_nonempty [of sep s] str_split_hd [of sep s]
  by (simp add: hd_conv_nth)








section \<open>The three checks of detect_anti_patterns\<close>

lemma fold_top_dirs:
  "fold (\<lambda>f dirs. let parts = str_split CHR ''/'' f
                   in if length parts > 1 then insert (parts ! 0) dirs else dirs) fs acc =
   acc \<union> {takeWhile (\<lambda>c. c \<noteq> CHR ''/'') f | f. f \<in> set fs \<and> CHR ''/'' \<in> set f}"
proof (induction fs arbitrary: acc)
  case Nil
  then show ?case by simp
next
  case (Cons f fs)
  show ?case
    using Cons.IH
    by (auto simp add: Let_def str_split_length_Suc str_split_first)
qed

lemma top_dirs_eq:
  "top_dirs fs = {takeWhile (\<lambda>c. c \<noteq> CHR ''/'') f | f. f \<in> set fs \<and> CHR ''/'' \<in> set f}"
  unfolding top_dirs_def fold_top_dirs by simp

lemma finite_top_dirs: "finite (top_dirs fs)"
proof -
  have "top_dirs fs \<subseteq> (\<lambda>f. takeWhile (\<lambda>c. c \<noteq> CHR ''/'') f) ` set fs"
    by (auto simp add: top_dirs_eq)
  then show ?thesis by (rule finite_subset) simp
qed

lemma check_infrastructure_eq:
  "check_infrastructure fs dl =
     (if (\<exists>k \<in> set UI_KEYWORDS. sublist k dl) \<and>
         (\<exists>f \<in> set fs. \<exists>m \<in> set INFRASTRUCTURE_FILES. sublist m f)
      then [infra_warning (filter (\<lambda>f. \<exists>m \<in> set INFRASTRUCTURE_FILES. sublist m f) fs)]
      else [])"
  by (auto simp add: check_infrastructure_def infra_found_def list_ex_str_in Let_def
      filter_empty_conv)

lemma check_modules_eq:
  "check_modules fs =
     (if 3 < card (top_dirs fs) then [modules_warning (top_dirs fs)] else [])"
  by (simp add: check_modules_def Let_def)

lemma check_complexity_eq:
  "check_complexity dl =
     (if (\<exists>k \<in> set complexity_keywords. sublist k dl) \<and>
         (\<exists>k \<in> set simple_fix_keywords. sublist k dl)
      then [complexity_warning dl] else [])"
  by (simp add: check_complexity_def list_ex_str_in Let_def)

lemma complexity_warning_eq:
  "complexity_warning dl =
     WARNING_SIGN @ '' ANTI-PATTERN: Complex abstractions ('' @
     repr_list (filter (\<lambda>k. sublist k dl) complexity_keywords) @
     '') for simple fix'' @ NL @
     ''   Recommendation: Use simplest solution that works''"
  by (simp add: complexity_warning_def str_in_sublist)

lemma check_lengths:
  "length (check_infrastructure fs dl) \<le> 1"
  "length (check_modules fs) \<le> 1"
  "length (check_complexity dl) \<le> 1"
  by (simp_all add: check_infrastructure_eq check_modules_eq check_complexity_eq)

section \<open>The two outcomes of analyze_scope\<close>

lemma scope_tier_level:
  "fst (scope_tier n) =
     (if n \<le> 3 then ''LOCAL'' else if n \<le> 5 then ''MODERATE'' else ''EXTENSIVE'')"
  by (simp add: scope_tier_def)

lemma scope_tier_message:
  "snd (scope_tier n) =
     (if n \<le> 3 then CHECK_MARK @ '' Local scope - auto-approved''
      else if n \<le> 5 then WARNING_SIGN @ '' Moderate scope - approved with caution''
      else WARNING_SIGN @ '' Extensive scope - approaching limit (max 10 files)'')"
  by (simp add: scope_tier_def)

lemma analyze_scope_blocked:
  "10 < length fs \<Longrightarrow>
   analyze_scope str_lower fs d =
     Inl \<lparr>ScopeViolationError.message = violation_message fs,
          ScopeViolationError.file_count = int (length fs),
          ScopeViolationError.max_allowed = 10\<rparr>"
  by (simp add: analyze_scope_def)

lemma analyze_scope_approved:
  "length fs \<le> 10 \<Longrightarrow>
   analyze_scope str_lower fs d =
     Inr \<lparr>approved = True,
          scope_level = fst (scope_tier (int (length fs))),
          decision.file_count = int (length fs),
          warnings =
            (if fst (scope_tier (int (length fs))) \<in> set [''MODERATE'', ''EXTENSIVE'']
             then snd (scope_tier (int (length fs))) # detect_anti_patterns str_lower fs d
             else detect_anti_patterns str_lower fs d),
          files = fs\<rparr>"
  by (simp add: analyze_scope_def Let_def split_beta)

lemma analyze_scope_Inr_length: "analyze_scope str_lower fs d = Inr dec \<Longrightarrow> length fs \<le> 10"
proof (rule ccontr)
  assume a: "analyze_scope str_lower fs d = Inr dec" and "\<not> length fs \<le> 10"
  then have "10 < length fs" by simp
  from analyze_scope_blocked [OF this] a show False by simp
qed

section \<open>The store embedding computes analyze_scope\<close>

text \<open>
  In a store that is \<open>ready\<close>, the detector with the store takes one new object and leaves
  in it the warnings \<open>detect_anti_patterns\<close> returns; \<open>analyze_scope\<close> with the store
  changes nothing else, and what the caller reads from its outcome is \<open>analyze_scope\<close> of
  the contents of the argument.
\<close>

lemma detect_anti_patterns_unfold:
  "detect_anti_patterns str_lower fs d =
     (if list_ex (\<lambda>keyword. str_in keyword (str_lower d))
            [''ui'', ''css'', ''style'', ''button'', ''layout'']
      then (if filter (\<lambda>f. list_ex (\<lambda>infra. str_in infra f) INFRASTRUCTURE_FILES) fs \<noteq> []
            then [infra_warning
                    (filter (\<lambda>f. list_ex (\<lambda>infra. str_in infra f) INFRASTRUCTURE_FILES) fs)]
            else [])
      else []) @
     (if card (top_dirs fs) > 3 then [modules_warning (top_dirs fs)] else []) @
     (if list_ex (\<lambda>kw. str_in kw (str_lower d)) complexity_keywords \<and>
         list_ex (\<lambda>kw. str_in kw (str_lower d)) simple_fix_keywords
      then [complexity_warning (str_lower d)] else [])"
  by (simp add: detect_anti_patterns_def check_infrastructure_def check_modules_def
      check_complexity_def infra_found_def UI_KEYWORDS_def Let_def)

lemma detect_anti_patterns_st_eq:
  assumes "ready s files_ref"
  shows "detect_anti_patterns_st str_lower files_ref d s =
     (next_addr s,
      s\<lparr>heap := (heap s)(next_addr s := detect_anti_patterns str_lower (heap s files_ref) d),
        next_addr := Suc (next_addr s)\<rparr>)"
proof -
  from assms have ne: "files_ref \<noteq> next_addr s" "INFRASTRUCTURE_FILES_ref \<noteq> next_addr s"
    and g: "heap s INFRASTRUCTURE_FILES_ref = INFRASTRUCTURE_FILES"
    by (simp_all add: ready_def)
  show ?thesis
    unfolding detect_anti_patterns_unfold detect_anti_patterns_st_def top_dirs_def [symmetric]
    by (simp add: new_list_def list_append_def Let_def ne g)
qed


lemma analyze_scope_st_blocked:
  "10 < length (heap s files_ref) \<Longrightarrow>
   analyze_scope_st str_lower files_ref d s =
     (Inl \<lparr>ScopeViolationError.message = violation_message (heap s files_ref),
           ScopeViolationError.file_count = int (length (heap s files_ref)),
           ScopeViolationError.max_allowed = 10\<rparr>, s)"
  by (simp add: analyze_scope_st_def)

lemma analyze_scope_st_approved:
  assumes "ready s files_ref" and "length (heap s files_ref) \<le> 10"
  shows "analyze_scope_st str_lower files_ref d s =
     (Inr \<lparr>r_approved = True,
           r_scope_level = fst (scope_tier (int (length (heap s files_ref)))),
           r_file_count = int (length (heap s files_ref)),
           r_warnings = next_addr s,
           r_files = files_ref\<rparr>,
      s\<lparr>heap := (heap s)(next_addr s :=
           (if fst (scope_tier (int (length (heap s files_ref)))) \<in>
                 set [''MODERATE'', ''EXTENSIVE'']
            then snd (scope_tier (int (length (heap s files_ref)))) #
                 detect_anti_patterns str_lower (heap s files_ref) d
            else detect_anti_patterns str_lower (heap s files_ref) d)),
        next_addr := Suc (next_addr s)\<rparr>)"
  using assms(2)
  by (simp add: analyze_scope_st_def detect_anti_patterns_st_eq [OF assms(1)]
      list_insert0_def Let_def split_beta)

lemma deref_analyze_scope_st:
  assumes "ready s files_ref"
  shows "deref (snd (analyze_scope_st str_lower files_ref d s))
               (fst (analyze_scope_st str_lower files_ref d s)) =
         analyze_scope str_lower (heap s files_ref) d"
proof (cases "10 < length (heap s files_ref)")
  case True
  then show ?thesis
    by (simp add: analyze_scope_st_blocked analyze_scope_blocked deref_def)
next
  case False
  then have le: "length (heap s files_ref) \<le> 10" by simp
  from assms have ne: "files_ref \<noteq> next_addr s" by (simp add: ready_def)
  show ?thesis
    by (simp add: analyze_scope_st_approved [OF assms le] analyze_scope_approved [OF le]
        deref_def ne)
qed

lemma analyze_scope_st_frame:
  assumes "ready s files_ref"
  shows "(\<forall>a < next_addr s. heap (snd (analyze_scope_st str_lower files_ref d s)) a = heap s a) \<and>
         next_addr s \<le> next_addr (snd (analyze_scope_st str_lower files_ref d s))"
proof (cases "10 < length (heap s files_ref)")
  case True
  then show ?thesis by (simp add: analyze_scope_st_blocked)
next
  case False
  then have le: "length (heap s files_ref) \<le> 10" by simp
  show ?thesis
    by (simp add: analyze_scope_st_approved [OF assms le])
qed

lemma analyze_scope_st_ready:
  assumes "ready s files_ref"
  shows "ready (snd (analyze_scope_st str_lower files_ref d s)) files_ref"
  using assms analyze_scope_st_frame [OF assms, of str_lower d]
  by (simp add: ready_def)

lemma repeat_calls_same:
  "ready s files_ref \<Longrightarrow>
   fst (repeat_calls k str_lower files_ref d s) =
     replicate k (analyze_scope str_lower (heap s files_ref) d)"
proof (induction k arbitrary: s)
  case 0
  then show ?case by simp
next
  case (Suc k)
  let ?c = "analyze_scope_st str_lower files_ref d s"
  from Suc.prems have r: "ready (snd ?c) files_ref" by (rule analyze_scope_st_ready)
  from Suc.prems have "files_ref < next_addr s" by (simp add: ready_def)
  with analyze_scope_st_frame [OF Suc.prems, of str_lower d]
  have same: "heap (snd ?c) files_ref = heap s files_ref" by simp
  from Suc.IH [OF r] same deref_analyze_scope_st [OF Suc.prems, of str_lower d]
  show ?case by (simp add: split_beta)
qed

section \<open>The tool module\<close>

lemma tool_detect_anti_patterns_eq:
  "tool_detect_anti_patterns str_lower fs d = detect_anti_patterns str_lower fs d"
  by (simp add: tool_detect_anti_patterns_def detect_anti_patterns_def check_infrastructure_def
      check_modules_def check_complexity_def infra_found_def infra_warning_def modules_warning_def
      complexity_warning_def top_dirs_def UI_KEYWORDS_def complexity_keywords_def
      simple_fix_keywords_def tool_INFRASTRUCTURE_FILES_def INFRASTRUCTURE_FILES_def Let_def)

section \<open>Properties of the scope classifier\<close>

text \<open>
  C1. For every file list and description, \<open>analyze_scope\<close> raises the scope violation
  exactly when there are more than 10 files, and the violation then carries the number
  of files as its file count and 10 as the maximum allowed. With at most 10 files it
  returns a decision whose \<open>approved\<close> field is true. The two outcomes exclude each other:
  a call that raises returns no decision.
\<close>

theorem analyze_scope_violation_iff:
  "((\<exists>e. analyze_scope str_lower fs d = Inl e) \<longleftrightarrow> 10 < length fs) \<and>
   (\<forall>e. analyze_scope str_lower fs d = Inl e \<longrightarrow>
        ScopeViolationError.file_count e = int (length fs) \<and>
        ScopeViolationError.max_allowed e = 10) \<and>
   ((\<exists>dec. analyze_scope str_lower fs d = Inr dec) \<longleftrightarrow> length fs \<le> 10) \<and>
   (\<forall>dec. analyze_scope str_lower fs d = Inr dec \<longrightarrow> approved dec)"
proof (cases "10 < length fs")
  case True
  then show ?thesis by (simp add: analyze_scope_blocked)
next
  case False
  then have "length fs \<le> 10" by simp
  then show ?thesis using False by (auto simp add: analyze_scope_approved)
qed

theorem analyze_scope_violation_iff_witness:
  "(\<exists>e. analyze_scope ascii_lower (replicate 11 ''f.py'') ''Fix CSS'' = Inl e \<and>
        ScopeViolationError.file_count e = 11 \<and> ScopeViolationError.max_allowed e = 10) \<and>
   (\<exists>dec. analyze_scope ascii_lower [''a.py'', ''b.py''] ''Fix CSS'' = Inr dec \<and> approved dec)"
  using analyze_scope_violation_iff [of ascii_lower "replicate 11 ''f.py''" "''Fix CSS''"]
        analyze_scope_violation_iff [of ascii_lower "[''a.py'', ''b.py'']" "''Fix CSS''"]
  by auto

text \<open>
  C2. For every file list of at most 10 entries, the decision's scope level depends on the
  number of entries only (each entry counts, the description plays no part): up to 3
  entries give LOCAL, 4 or 5 give MODERATE, 6 to 10 give EXTENSIVE. The empty list is
  treated like any other: file count 0, level LOCAL.
\<close>

theorem scope_level_by_count:
  "(length fs \<le> 10 \<longrightarrow>
      (\<exists>dec. analyze_scope str_lower fs d = Inr dec \<and>
             decision.file_count dec = int (length fs) \<and>
             scope_level dec =
               (if length fs \<le> 3 then ''LOCAL''
                else if length fs \<le> 5 then ''MODERATE'' else ''EXTENSIVE''))) \<and>
   (\<exists>dec. analyze_scope str_lower [] d = Inr dec \<and>
          decision.file_count dec = 0 \<and> scope_level dec = ''LOCAL'')"
  by (simp add: analyze_scope_approved scope_tier_level)

theorem scope_level_by_count_witness:
  "(\<exists>dec. analyze_scope ascii_lower [''a'', ''a'', ''a'', ''a''] ''x'' = Inr dec \<and>
          decision.file_count dec = 4 \<and> scope_level dec = ''MODERATE'') \<and>
   (\<exists>dec. analyze_scope ascii_lower (replicate 10 ''a'') ''y'' = Inr dec \<and>
          decision.file_count dec = 10 \<and> scope_level dec = ''EXTENSIVE'')"
  using scope_level_by_count [of "[''a'', ''a'', ''a'', ''a'']" ascii_lower "''x''"]
        scope_level_by_count [of "replicate 10 ''a''" ascii_lower "''y''"]
  by simp

section \<open>Properties of the anti-pattern detector\<close>

text \<open>
  C3. For every file list and description, the infrastructure-for-UI check emits its
  warning exactly when the lower-cased description has one of the keywords ui, css,
  style, button, layout as a substring and some file path has one of the eleven
  infrastructure markers as a substring. The warning then lists the matching paths, and
  only those, in the order of the input.
\<close>

theorem infrastructure_check_iff:
  "check_infrastructure fs (str_lower d) =
     (if (\<exists>k \<in> {''ui'', ''css'', ''style'', ''button'', ''layout''}. sublist k (str_lower d)) \<and>
         (\<exists>f \<in> set fs. \<exists>m \<in> set INFRASTRUCTURE_FILES. sublist m f)
      then [WARNING_SIGN @ '' ANTI-PATTERN: Infrastructure files modified for UI issue!'' @ NL @
            ''   Files: '' @
            join '', '' (filter (\<lambda>f. \<exists>m \<in> set INFRASTRUCTURE_FILES. sublist m f) fs) @ NL @
            ''   Recommendation: Keep infrastructure changes separate from UI fixes'']
      else []) \<and>
   length INFRASTRUCTURE_FILES = 11 \<and> distinct INFRASTRUCTURE_FILES"
proof -
  have "set UI_KEYWORDS = {''ui'', ''css'', ''style'', ''button'', ''layout''}"
    by (simp add: UI_KEYWORDS_def)
  then have "check_infrastructure fs (str_lower d) =
     (if (\<exists>k \<in> {''ui'', ''css'', ''style'', ''button'', ''layout''}. sublist k (str_lower d)) \<and>
         (\<exists>f \<in> set fs. \<exists>m \<in> set INFRASTRUCTURE_FILES. sublist m f)
      then [infra_warning (filter (\<lambda>f. \<exists>m \<in> set INFRASTRUCTURE_FILES. sublist m f) fs)]
      else [])"
    by (simp only: check_infrastructure_eq)
  moreover have "length INFRASTRUCTURE_FILES = 11" "distinct INFRASTRUCTURE_FILES"
    by (simp_all add: INFRASTRUCTURE_FILES_def)
  ultimately show ?thesis by (simp only: infra_warning_def)
qed

theorem infrastructure_check_iff_witness:
  "check_infrastructure [''src/components/Button.css'', ''Dockerfile'', ''docker-compose.yml'']
     (ascii_lower ''Fix CSS button alignment'') =
     [infra_warning [''Dockerfile'', ''docker-compose.yml'']] \<and>
   check_infrastructure [''src/main.tf''] (ascii_lower ''Refactor parser'') = [] \<and>
   check_infrastructure [''src/app.py''] (ascii_lower ''Fix CSS button alignment'') = []"
proof -
  have d1: "ascii_lower ''Fix CSS button alignment'' = ''fix css button alignment''"
    and d2: "ascii_lower ''Refactor parser'' = ''refactor parser''"
    by code_simp+
  have k1: "sublist ''css'' ''fix css button alignment''"
    by code_simp
  have k2: "\<not> (\<exists>k \<in> {''ui'', ''css'', ''style'', ''button'', ''layout''}.
               sublist k ''refactor parser'')"
    by code_simp
  have m1: "filter (\<lambda>f. \<exists>m \<in> set INFRASTRUCTURE_FILES. sublist m f)
              [''src/components/Button.css'', ''Dockerfile'', ''docker-compose.yml''] =
            [''Dockerfile'', ''docker-compose.yml'']"
    by code_simp
  have m2: "\<exists>f \<in> set [''src/components/Button.css'', ''Dockerfile'', ''docker-compose.yml''].
              \<exists>m \<in> set INFRASTRUCTURE_FILES. sublist m f"
    by code_simp
  have m3: "\<not> (\<exists>f \<in> set [''src/app.py'']. \<exists>m \<in> set INFRASTRUCTURE_FILES. sublist m f)"
    by code_simp
  have a: "check_infrastructure
             [''src/components/Button.css'', ''Dockerfile'', ''docker-compose.yml'']
             (ascii_lower ''Fix CSS button alignment'') =
           [infra_warning [''Dockerfile'', ''docker-compose.yml'']]"
    using infrastructure_check_iff
      [of "[''src/components/Button.css'', ''Dockerfile'', ''docker-compose.yml'']" ascii_lower
          "''Fix CSS button alignment''"] k1 m2
    by (simp only: d1 m1 infra_warning_def) auto
  have b: "check_infrastructure [''src/main.tf''] (ascii_lower ''Refactor parser'') = []"
    using infrastructure_check_iff [of "[''src/main.tf'']" ascii_lower "''Refactor parser''"] k2
    by (simp only: d2) simp
  have c: "check_infrastructure [''src/app.py''] (ascii_lower ''Fix CSS button alignment'') = []"
    using infrastructure_check_iff [of "[''src/app.py'']" ascii_lower "''Fix CSS button alignment''"] m3
    by (simp only: d1) simp
  from a b c show ?thesis by simp
qed

text \<open>
  C4. For every file list, the modules collected by the cross-module check are the first
  segments (the text before the first \<open>/\<close>) of the paths that contain a \<open>/\<close>; a path
  without \<open>/\<close> gives none. The check emits its warning exactly when there are more than 3
  distinct modules, and the warning lists every distinct module once, in ascending
  lexicographic order.
\<close>

theorem cross_module_check:
  "(let M = {takeWhile (\<lambda>c. c \<noteq> CHR ''/'') f | f. f \<in> set fs \<and> CHR ''/'' \<in> set f};
        ms = sorted_list_of_set M
    in top_dirs fs = M \<and>
       check_modules fs =
         (if 3 < card M
          then [WARNING_SIGN @ '' ANTI-PATTERN: Changes span '' @ str_int (int (card M)) @
                '' unrelated modules: '' @ join '', '' ms @ NL @
                ''   Recommendation: Split into focused changes per module'']
          else []) \<and>
       sorted ms \<and> distinct ms \<and> set ms = M)"
proof -
  have fin: "finite (top_dirs fs)" by (rule finite_top_dirs)
  have "set (sorted_list_of_set (top_dirs fs)) = top_dirs fs"
    using fin by simp
  then show ?thesis
    unfolding Let_def top_dirs_eq [symmetric]
    by (simp add: check_modules_eq modules_warning_def)
qed

theorem cross_module_check_witness:
  "top_dirs [''d/x'', ''README.md'', ''b/x'', ''a/x/y'', ''c/x'', ''b/z''] =
     {''a'', ''b'', ''c'', ''d''} \<and>
   check_modules [''d/x'', ''README.md'', ''b/x'', ''a/x/y'', ''c/x'', ''b/z''] =
     [WARNING_SIGN @ '' ANTI-PATTERN: Changes span 4 unrelated modules: a, b, c, d'' @ NL @
      ''   Recommendation: Split into focused changes per module''] \<and>
   check_modules [''a/x'', ''b/x'', ''c/x'', ''Dockerfile'', ''setup.py''] = []"
proof -
  have t1: "top_dirs [''d/x'', ''README.md'', ''b/x'', ''a/x/y'', ''c/x'', ''b/z''] =
              {''a'', ''b'', ''c'', ''d''}"
    by (simp add: top_dirs_def) auto
  have t2: "top_dirs [''a/x'', ''b/x'', ''c/x'', ''Dockerfile'', ''setup.py''] =
              {''a'', ''b'', ''c''}"
    by (simp add: top_dirs_def) auto
  have M1: "{takeWhile (\<lambda>c. c \<noteq> CHR ''/'') f | f.
              f \<in> set [''d/x'', ''README.md'', ''b/x'', ''a/x/y'', ''c/x'', ''b/z''] \<and>
              CHR ''/'' \<in> set f} = {''a'', ''b'', ''c'', ''d''}"
    by (simp only: top_dirs_eq [symmetric] t1)
  have M2: "{takeWhile (\<lambda>c. c \<noteq> CHR ''/'') f | f.
              f \<in> set [''a/x'', ''b/x'', ''c/x'', ''Dockerfile'', ''setup.py''] \<and>
              CHR ''/'' \<in> set f} = {''a'', ''b'', ''c''}"
    by (simp only: top_dirs_eq [symmetric] t2)
  have c1: "card {''a'', ''b'', ''c'', ''d''} = 4" and c2: "card {''a'', ''b'', ''c''} = 3"
    by simp_all
  have s1: "sorted_list_of_set {''a'', ''b'', ''c'', ''d''} = [''a'', ''b'', ''c'', ''d'']"
    by code_simp
  have n4: "str_int 4 = ''4''" by code_simp
  show ?thesis
    using cross_module_check [of "[''d/x'', ''README.md'', ''b/x'', ''a/x/y'', ''c/x'', ''b/z'']"]
          cross_module_check [of "[''a/x'', ''b/x'', ''c/x'', ''Dockerfile'', ''setup.py'']"]
    unfolding Let_def M1 M2 c1 c2 s1
    by (simp add: n4)
qed

text \<open>
  C5. For every description, the complexity-for-simple-fix check emits its warning
  exactly when the lower-cased description has one of factory, manager, handler, builder,
  strategy, adapter as a substring and also one of fix, bug, typo, minor. It stays silent
  when only one of the two keyword lists matches. The warning shows the complexity
  keywords that matched, in the order of the keyword list.
\<close>

theorem complexity_check_iff:
  "check_complexity (str_lower d) =
     (if (\<exists>k \<in> {''factory'', ''manager'', ''handler'', ''builder'', ''strategy'', ''adapter''}.
            sublist k (str_lower d)) \<and>
         (\<exists>k \<in> {''fix'', ''bug'', ''typo'', ''minor''}. sublist k (str_lower d))
      then [WARNING_SIGN @ '' ANTI-PATTERN: Complex abstractions ('' @
            repr_list (filter (\<lambda>k. sublist k (str_lower d))
              [''factory'', ''manager'', ''handler'', ''builder'', ''strategy'', ''adapter'']) @
            '') for simple fix'' @ NL @
            ''   Recommendation: Use simplest solution that works'']
      else []) \<and>
   (\<not> (\<exists>k \<in> {''fix'', ''bug'', ''typo'', ''minor''}. sublist k (str_lower d)) \<longrightarrow>
      check_complexity (str_lower d) = []) \<and>
   (\<not> (\<exists>k \<in> {''factory'', ''manager'', ''handler'', ''builder'', ''strategy'', ''adapter''}.
            sublist k (str_lower d)) \<longrightarrow>
      check_complexity (str_lower d) = [])"
proof -
  have c: "set complexity_keywords =
      {''factory'', ''manager'', ''handler'', ''builder'', ''strategy'', ''adapter''}"
    by (simp add: complexity_keywords_def)
  have s: "set simple_fix_keywords = {''fix'', ''bug'', ''typo'', ''minor''}"
    by (simp add: simple_fix_keywords_def)
  have l: "complexity_keywords =
      [''factory'', ''manager'', ''handler'', ''builder'', ''strategy'', ''adapter'']"
    by (simp add: complexity_keywords_def)
  have "check_complexity (str_lower d) =
     (if (\<exists>k \<in> set complexity_keywords. sublist k (str_lower d)) \<and>
         (\<exists>k \<in> set simple_fix_keywords. sublist k (str_lower d))
      then [WARNING_SIGN @ '' ANTI-PATTERN: Complex abstractions ('' @
            repr_list (filter (\<lambda>k. sublist k (str_lower d)) complexity_keywords) @
            '') for simple fix'' @ NL @
            ''   Recommendation: Use simplest solution that works'']
      else [])"
    by (simp only: check_complexity_eq complexity_warning_eq)
  then have e: "check_complexity (str_lower d) =
     (if (\<exists>k \<in> {''factory'', ''manager'', ''handler'', ''builder'', ''strategy'', ''adapter''}.
            sublist k (str_lower d)) \<and>
         (\<exists>k \<in> {''fix'', ''bug'', ''typo'', ''minor''}. sublist k (str_lower d))
      then [WARNING_SIGN @ '' ANTI-PATTERN: Complex abstractions ('' @
            repr_list (filter (\<lambda>k. sublist k (str_lower d))
              [''factory'', ''manager'', ''handler'', ''builder'', ''strategy'', ''adapter'']) @
            '') for simple fix'' @ NL @
            ''   Recommendation: Use simplest solution that works'']
      else [])"
    unfolding c s by (simp only: l)
  moreover from e have
    "\<not> (\<exists>k \<in> {''fix'', ''bug'', ''typo'', ''minor''}. sublist k (str_lower d)) \<longrightarrow>
      check_complexity (str_lower d) = []"
    by (simp only: if_False simp_thms split: if_splits)
  moreover from e have
    "\<not> (\<exists>k \<in> {''factory'', ''manager'', ''handler'', ''builder'', ''strategy'', ''adapter''}.
            sublist k (str_lower d)) \<longrightarrow>
      check_complexity (str_lower d) = []"
    by (simp only: if_False simp_thms split: if_splits)
  ultimately show ?thesis by (intro conjI)
qed

theorem complexity_check_iff_witness:
  "check_complexity (ascii_lower ''fix: refactor with Factory pattern and a Handler'') =
     [WARNING_SIGN @ '' ANTI-PATTERN: Complex abstractions (['factory', 'handler'])'' @
      '' for simple fix'' @ NL @
      ''   Recommendation: Use simplest solution that works''] \<and>
   check_complexity (ascii_lower ''Introduce a strategy builder'') = [] \<and>
   check_complexity (ascii_lower ''Fix typo in README'') = []"
proof -
  have d1: "ascii_lower ''fix: refactor with Factory pattern and a Handler'' =
            ''fix: refactor with factory pattern and a handler''"
    and d2: "ascii_lower ''Introduce a strategy builder'' = ''introduce a strategy builder''"
    and d3: "ascii_lower ''Fix typo in README'' = ''fix typo in readme''"
    by code_simp+
  have a1: "\<exists>k \<in> {''factory'', ''manager'', ''handler'', ''builder'', ''strategy'', ''adapter''}.
              sublist k ''fix: refactor with factory pattern and a handler''"
    and a2: "\<exists>k \<in> {''fix'', ''bug'', ''typo'', ''minor''}.
              sublist k ''fix: refactor with factory pattern and a handler''"
    and a3: "repr_list (filter (\<lambda>k. sublist k ''fix: refactor with factory pattern and a handler'')
              [''factory'', ''manager'', ''handler'', ''builder'', ''strategy'', ''adapter'']) =
             ''['factory', 'handler']''"
    by code_simp+
  have b: "\<not> (\<exists>k \<in> {''fix'', ''bug'', ''typo'', ''minor''}.
               sublist k ''introduce a strategy builder'')"
    by code_simp
  have c: "\<not> (\<exists>k \<in> {''factory'', ''manager'', ''handler'', ''builder'', ''strategy'',
               ''adapter''}. sublist k ''fix typo in readme'')"
    by code_simp
  have r1: "check_complexity (ascii_lower ''fix: refactor with Factory pattern and a Handler'') =
     [WARNING_SIGN @ '' ANTI-PATTERN: Complex abstractions (['factory', 'handler'])'' @
      '' for simple fix'' @ NL @
      ''   Recommendation: Use simplest solution that works'']"
    using complexity_check_iff [of ascii_lower "''fix: refactor with Factory pattern and a Handler''"] a1 a2
    unfolding d1 a3 by simp
  have r2: "check_complexity (ascii_lower ''Introduce a strategy builder'') = []"
    using complexity_check_iff [of ascii_lower "''Introduce a strategy builder''"] b
    unfolding d2 by blast
  have r3: "check_complexity (ascii_lower ''Fix typo in README'') = []"
    using complexity_check_iff [of ascii_lower "''Fix typo in README''"] c
    unfolding d3 by blast
  from r1 r2 r3 show ?thesis by (intro conjI)
qed

section \<open>Properties of the assembled decision\<close>

text \<open>
  C6. For every approved call, the decision's warnings are, in this order: the scope
  advisory (the moderate one for level MODERATE, the extensive one for level EXTENSIVE,
  none for level LOCAL), then what the infrastructure-for-UI check emits, then what the
  cross-module check emits, then what the complexity-for-simple-fix check emits. Each
  check contributes at most one warning and contributes it whatever the other checks
  emit.
\<close>

theorem warnings_order:
  "analyze_scope str_lower fs d = Inr dec \<Longrightarrow>
   warnings dec =
     (if scope_level dec = ''MODERATE''
      then [WARNING_SIGN @ '' Moderate scope - approved with caution'']
      else if scope_level dec = ''EXTENSIVE''
      then [WARNING_SIGN @ '' Extensive scope - approaching limit (max 10 files)'']
      else []) @
     check_infrastructure fs (str_lower d) @ check_modules fs @ check_complexity (str_lower d) \<and>
   (scope_level dec = ''LOCAL'' \<or> scope_level dec = ''MODERATE'' \<or>
    scope_level dec = ''EXTENSIVE'') \<and>
   length (check_infrastructure fs (str_lower d)) \<le> 1 \<and>
   length (check_modules fs) \<le> 1 \<and>
   length (check_complexity (str_lower d)) \<le> 1"
proof -
  assume a: "analyze_scope str_lower fs d = Inr dec"
  then have le: "length fs \<le> 10" by (rule analyze_scope_Inr_length)
  from analyze_scope_approved [OF le] a have dec:
    "dec = \<lparr>approved = True,
          scope_level = fst (scope_tier (int (length fs))),
          decision.file_count = int (length fs),
          warnings =
            (if fst (scope_tier (int (length fs))) \<in> set [''MODERATE'', ''EXTENSIVE'']
             then snd (scope_tier (int (length fs))) # detect_anti_patterns str_lower fs d
             else detect_anti_patterns str_lower fs d),
          files = fs\<rparr>"
    by simp
  have w: "warnings dec =
     (if scope_level dec = ''MODERATE''
      then [WARNING_SIGN @ '' Moderate scope - approved with caution'']
      else if scope_level dec = ''EXTENSIVE''
      then [WARNING_SIGN @ '' Extensive scope - approaching limit (max 10 files)'']
      else []) @
     check_infrastructure fs (str_lower d) @ check_modules fs @ check_complexity (str_lower d)"
    by (simp add: dec scope_tier_level scope_tier_message detect_anti_patterns_def Let_def)
  have l: "scope_level dec = ''LOCAL'' \<or> scope_level dec = ''MODERATE'' \<or>
    scope_level dec = ''EXTENSIVE''"
    by (simp add: dec scope_tier_level)
  from w l check_lengths show ?thesis by (intro conjI)
qed

theorem warnings_order_witness:
  "\<exists>dec. analyze_scope ascii_lower [''a/Dockerfile'', ''b/x'', ''c/x'', ''d/x''] ''Fix CSS with a factory'' =
            Inr dec \<and>
     warnings dec =
       [WARNING_SIGN @ '' Moderate scope - approved with caution'',
        infra_warning [''a/Dockerfile''],
        modules_warning {''a'', ''b'', ''c'', ''d''},
        complexity_warning ''fix css with a factory'']"
proof -
  obtain dec where
    h: "analyze_scope ascii_lower [''a/Dockerfile'', ''b/x'', ''c/x'', ''d/x''] ''Fix CSS with a factory'' =
          Inr dec"
    by (simp add: analyze_scope_approved)
  from h have lv: "scope_level dec = ''MODERATE''"
    by (auto simp add: analyze_scope_approved scope_tier_level)
  have c1: "check_infrastructure [''a/Dockerfile'', ''b/x'', ''c/x'', ''d/x'']
              (ascii_lower ''Fix CSS with a factory'') = [infra_warning [''a/Dockerfile'']]"
    by code_simp
  have c2: "check_modules [''a/Dockerfile'', ''b/x'', ''c/x'', ''d/x''] =
              [modules_warning {''a'', ''b'', ''c'', ''d''}]"
    by code_simp
  have c3: "check_complexity (ascii_lower ''Fix CSS with a factory'') =
              [complexity_warning ''fix css with a factory'']"
    by code_simp
  from warnings_order [OF h] have
    "warnings dec =
       [WARNING_SIGN @ '' Moderate scope - approved with caution'',
        infra_warning [''a/Dockerfile''],
        modules_warning {''a'', ''b'', ''c'', ''d''},
        complexity_warning ''fix css with a factory'']"
    by (simp add: lv c1 c2 c3)
  with h show ?thesis by blast
qed

text \<open>
  C7. For every approved call, the decision's \<open>files\<close> field is the input list itself
  (same entries, same order, duplicates kept) and its \<open>file_count\<close> field is the length of
  that list.
\<close>

theorem decision_echoes_files:
  "analyze_scope str_lower fs d = Inr dec \<Longrightarrow>
   files dec = fs \<and> decision.file_count dec = int (length fs)"
  by (cases "10 < length fs") (auto simp add: analyze_scope_blocked analyze_scope_approved)

theorem decision_echoes_files_witness:
  "\<exists>dec. analyze_scope ascii_lower [''b/x'', ''a/y'', ''b/x''] ''Fix typo'' = Inr dec \<and>
     files dec = [''b/x'', ''a/y'', ''b/x''] \<and> decision.file_count dec = 3"
proof -
  obtain dec where h: "analyze_scope ascii_lower [''b/x'', ''a/y'', ''b/x''] ''Fix typo'' = Inr dec"
    by (simp add: analyze_scope_approved)
  from decision_echoes_files [OF h] h show ?thesis by simp
qed

section \<open>The two copies of the analysis agree\<close>

text \<open>
  C8. \<open>analyze_scope\<close> of scope_validator.py and \<open>_analyze_scope_impl\<close> of
  integration_specialist_tool.py agree on every input: either both return a decision and
  the two decisions are equal, or both raise their scope violation and the two violations
  carry the same file count, the same maximum and the same message.
\<close>

theorem analyze_scope_impl_agrees:
  "(case (analyze_scope str_lower fs d, analyze_scope_impl str_lower fs d) of
      (Inr dec, Inr dec') \<Rightarrow> dec = dec'
    | (Inl e, Inl e') \<Rightarrow>
        ScopeViolationError.file_count e = ToolScopeViolationError.file_count e' \<and>
        ScopeViolationError.max_allowed e = ToolScopeViolationError.max_allowed e' \<and>
        ScopeViolationError.message e = ToolScopeViolationError.message e'
    | _ \<Rightarrow> False)"
  by (simp add: analyze_scope_def analyze_scope_impl_def tool_detect_anti_patterns_eq
      scope_tier_def violation_message_def Let_def)

theorem analyze_scope_impl_agrees_witness:
  "(\<exists>dec. analyze_scope ascii_lower [''a/Dockerfile'', ''b/x''] ''Fix CSS'' = Inr dec \<and>
          analyze_scope_impl ascii_lower [''a/Dockerfile'', ''b/x''] ''Fix CSS'' = Inr dec) \<and>
   (\<exists>e e'. analyze_scope ascii_lower (replicate 11 ''f.py'') ''Fix CSS'' = Inl e \<and>
           analyze_scope_impl ascii_lower (replicate 11 ''f.py'') ''Fix CSS'' = Inl e' \<and>
           ScopeViolationError.file_count e = ToolScopeViolationError.file_count e')"
proof -
  obtain dec where h1: "analyze_scope ascii_lower [''a/Dockerfile'', ''b/x''] ''Fix CSS'' = Inr dec"
    by (simp add: analyze_scope_approved)
  obtain e where h2: "analyze_scope ascii_lower (replicate 11 ''f.py'') ''Fix CSS'' = Inl e"
    by (simp add: analyze_scope_blocked)
  from analyze_scope_impl_agrees [of ascii_lower "[''a/Dockerfile'', ''b/x'']" "''Fix CSS''"] h1
  have r1: "analyze_scope_impl ascii_lower [''a/Dockerfile'', ''b/x''] ''Fix CSS'' = Inr dec"
    by (simp split: sum.splits)
  from analyze_scope_impl_agrees [of ascii_lower "replicate 11 ''f.py''" "''Fix CSS''"] h2
  obtain e' where r2: "analyze_scope_impl ascii_lower (replicate 11 ''f.py'') ''Fix CSS'' = Inl e'"
    and r3: "ScopeViolationError.file_count e = ToolScopeViolationError.file_count e'"
    by (auto split: sum.splits)
  from h1 h2 r1 r2 r3 show ?thesis by blast
qed

section \<open>Determinism\<close>

text \<open>
  C9. \<open>analyze_scope\<close> is deterministic. In every store where the module's list is as
  loaded and the argument is an existing list object, what the caller reads after a call
  is \<open>analyze_scope\<close> of the contents of the file list and of the description, and of
  nothing else. So two calls on equal file lists and equal descriptions, from whatever
  stores and through whatever references, have the same outcome: equal decisions, or
  violations with equal fields. A call changes no object that existed before it and leaves
  the store ready for the next call, and each of \<open>k\<close> calls made one after the other
  has that same outcome.
\<close>

theorem analyze_scope_deterministic:
  "ready s files_ref \<Longrightarrow>
   deref (snd (analyze_scope_st str_lower files_ref d s))
         (fst (analyze_scope_st str_lower files_ref d s)) =
     analyze_scope str_lower (heap s files_ref) d \<and>
   (\<forall>s' files_ref'. ready s' files_ref' \<and> heap s' files_ref' = heap s files_ref \<longrightarrow>
      deref (snd (analyze_scope_st str_lower files_ref' d s'))
            (fst (analyze_scope_st str_lower files_ref' d s')) =
      deref (snd (analyze_scope_st str_lower files_ref d s))
            (fst (analyze_scope_st str_lower files_ref d s))) \<and>
   (\<forall>a < next_addr s. heap (snd (analyze_scope_st str_lower files_ref d s)) a = heap s a) \<and>
   ready (snd (analyze_scope_st str_lower files_ref d s)) files_ref \<and>
   fst (repeat_calls k str_lower files_ref d s) =
     replicate k (analyze_scope str_lower (heap s files_ref) d)"
proof -
  assume r: "ready s files_ref"
  have 1: "deref (snd (analyze_scope_st str_lower files_ref d s))
         (fst (analyze_scope_st str_lower files_ref d s)) =
     analyze_scope str_lower (heap s files_ref) d"
    using r by (rule deref_analyze_scope_st)
  have 2: "\<forall>s' files_ref'. ready s' files_ref' \<and> heap s' files_ref' = heap s files_ref \<longrightarrow>
      deref (snd (analyze_scope_st str_lower files_ref' d s'))
            (fst (analyze_scope_st str_lower files_ref' d s')) =
      deref (snd (analyze_scope_st str_lower files_ref d s))
            (fst (analyze_scope_st str_lower files_ref d s))"
  proof (intro allI impI)
    fix s' files_ref'
    assume h: "ready s' files_ref' \<and> heap s' files_ref' = heap s files_ref"
    then have "ready s' files_ref'" by (rule conjunct1)
    then have "deref (snd (analyze_scope_st str_lower files_ref' d s'))
            (fst (analyze_scope_st str_lower files_ref' d s')) =
          analyze_scope str_lower (heap s' files_ref') d"
      by (rule deref_analyze_scope_st)
    also from h have "heap s' files_ref' = heap s files_ref" by (rule conjunct2)
    finally show "deref (snd (analyze_scope_st str_lower files_ref' d s'))
            (fst (analyze_scope_st str_lower files_ref' d s')) =
      deref (snd (analyze_scope_st str_lower files_ref d s))
            (fst (analyze_scope_st str_lower files_ref d s))"
      by (simp only: 1)
  qed
  have 3: "\<forall>a < next_addr s. heap (snd (analyze_scope_st str_lower files_ref d s)) a = heap s a"
    using analyze_scope_st_frame [OF r, of str_lower d] by (rule conjunct1)
  have 4: "ready (snd (analyze_scope_st str_lower files_ref d s)) files_ref"
    using r by (rule analyze_scope_st_ready)
  have 5: "fst (repeat_calls k str_lower files_ref d s) =
     replicate k (analyze_scope str_lower (heap s files_ref) d)"
    using r by (rule repeat_calls_same)
  from 1 2 3 4 5 show ?thesis by (intro conjI)
qed

theorem analyze_scope_deterministic_witness:
  "ready \<lparr>heap = (\<lambda>a. [])(0 := INFRASTRUCTURE_FILES, 1 := [''b/x'', ''a/y'', ''b/x'']),
          next_addr = 2\<rparr> 1 \<and>
   deref (snd (analyze_scope_st ascii_lower 1 ''Fix typo''
                 \<lparr>heap = (\<lambda>a. [])(0 := INFRASTRUCTURE_FILES, 1 := [''b/x'', ''a/y'', ''b/x'']),
                  next_addr = 2\<rparr>))
         (fst (analyze_scope_st ascii_lower 1 ''Fix typo''
                 \<lparr>heap = (\<lambda>a. [])(0 := INFRASTRUCTURE_FILES, 1 := [''b/x'', ''a/y'', ''b/x'']),
                  next_addr = 2\<rparr>)) =
     analyze_scope ascii_lower [''b/x'', ''a/y'', ''b/x''] ''Fix typo'' \<and>
   fst (repeat_calls 3 ascii_lower 1 ''Fix typo''
          \<lparr>heap = (\<lambda>a. [])(0 := INFRASTRUCTURE_FILES, 1 := [''b/x'', ''a/y'', ''b/x'']),
           next_addr = 2\<rparr>) =
     replicate 3 (analyze_scope ascii_lower [''b/x'', ''a/y'', ''b/x''] ''Fix typo'')"
proof -
  let ?s = "\<lparr>heap = (\<lambda>a. [])(0 := INFRASTRUCTURE_FILES, 1 := [''b/x'', ''a/y'', ''b/x'']),
            next_addr = 2\<rparr>"
  have r: "ready ?s 1"
    by (simp add: ready_def INFRASTRUCTURE_FILES_ref_def)
  have h: "heap ?s 1 = [''b/x'', ''a/y'', ''b/x'']"
    by simp
  note d = analyze_scope_deterministic [OF r, of ascii_lower "''Fix typo''" 3, unfolded h]
  from d have 1:
    "deref (snd (analyze_scope_st ascii_lower 1 ''Fix typo'' ?s))
           (fst (analyze_scope_st ascii_lower 1 ''Fix typo'' ?s)) =
       analyze_scope ascii_lower [''b/x'', ''a/y'', ''b/x''] ''Fix typo''"
    by (rule conjunct1)
  from d have 2:
    "fst (repeat_calls 3 ascii_lower 1 ''Fix typo'' ?s) =
       replicate 3 (analyze_scope ascii_lower [''b/x'', ''a/y'', ''b/x''] ''Fix typo'')"
    by (elim conjE)
  from r 1 2 show ?thesis by (intro conjI)
qed

section \<open>Letter case\<close>



end
